theory Spec2Isabelle
  imports Complex_Main "HOL-Library.Multiset"
begin

section \<open>Cards\<close>

text \<open>
  A card is \<open>{ suit, rank }\<close>. The only cards the program ever creates come from
  the two arrays \<open>suits\<close> and \<open>ranks\<close> of \<open>gameLogic.ts\<close>, so both are
  modelled as enumerations of those literals: \<open>R2\<close> .. \<open>R10\<close> stand for the
  strings "2" .. "10" and \<open>J\<close>, \<open>Q\<close>, \<open>K\<close>, \<open>A\<close> for the letters.
\<close>

datatype suit = Spades | Hearts | Diamonds | Clubs

datatype rank = R2 | R3 | R4 | R5 | R6 | R7 | R8 | R9 | R10 | J | Q | K | A

record card =
  suit :: suit
  rank :: rank

definition suits :: "suit list" where
  "suits = [Spades, Hearts, Diamonds, Clubs]"

definition ranks :: "rank list" where
  "ranks = [R2, R3, R4, R5, R6, R7, R8, R9, R10, J, Q, K, A]"

text \<open>The string a rank is in the source (used where a rank is spliced into a key).\<close>

fun rank_str :: "rank \<Rightarrow> string" where
  "rank_str R2 = ''2''"
| "rank_str R3 = ''3''"
| "rank_str R4 = ''4''"
| "rank_str R5 = ''5''"
| "rank_str R6 = ''6''"
| "rank_str R7 = ''7''"
| "rank_str R8 = ''8''"
| "rank_str R9 = ''9''"
| "rank_str R10 = ''10''"
| "rank_str J = ''J''"
| "rank_str Q = ''Q''"
| "rank_str K = ''K''"
| "rank_str A = ''A''"

text \<open>
  \<open>parseInt(card.rank, 10)\<close>: the number for the nine numeric literals, \<open>None\<close>
  (JavaScript's NaN) for the four letters.
\<close>

fun parseInt :: "rank \<Rightarrow> int option" where
  "parseInt R2 = Some 2"
| "parseInt R3 = Some 3"
| "parseInt R4 = Some 4"
| "parseInt R5 = Some 5"
| "parseInt R6 = Some 6"
| "parseInt R7 = Some 7"
| "parseInt R8 = Some 8"
| "parseInt R9 = Some 9"
| "parseInt R10 = Some 10"
| "parseInt r = None"

section \<open>Hand evaluation (BlackjackTable.tsx)\<close>

text \<open>
  The \<open>forEach\<close> of \<open>calculateTotal\<close>: one step per card on the pair
  \<open>(total, aces)\<close>. The last branch is reached for numeric ranks only, where
  \<open>parseInt\<close> yields a number; NaN never enters the total.
\<close>

fun addCard :: "card \<Rightarrow> int \<times> nat \<Rightarrow> int \<times> nat" where
  "addCard c (tot, aces) =
     (if rank c = A then (tot + 11, aces + 1)
      else if rank c \<in> set [K, Q, J] then (tot + 10, aces)
      else (case parseInt (rank c) of
              Some n \<Rightarrow> (tot + n, aces)
            | None \<Rightarrow> (tot, aces)))"

text \<open>The \<open>while (total > 21 && aces > 0)\<close> loop.\<close>

fun reduceAces :: "int \<Rightarrow> nat \<Rightarrow> int" where
  "reduceAces tot 0 = tot"
| "reduceAces tot (Suc aces) =
     (if tot > 21 then reduceAces (tot - 10) aces else tot)"

definition calculateTotal :: "card list \<Rightarrow> int" where
  "calculateTotal hand = (case fold addCard hand (0, 0) of (tot, aces) \<Rightarrow> reduceAces tot aces)"

definition computeOutcome :: "int \<Rightarrow> int \<Rightarrow> string" where
  "computeOutcome playerTotal dealerTotal =
     (if playerTotal > 21 then ''Bust''
      else if dealerTotal > 21 then ''Win''
      else if dealerTotal > playerTotal then ''Lose''
      else if dealerTotal < playerTotal then ''Win''
      else ''Push'')"

section \<open>Deck engine, card counter and strategy advisor (gameLogic.ts)\<close>

text \<open>
  The three nested loops of \<open>generateDeck\<close>: for each deck number, for each suit, for
  each rank, push the card.
\<close>

definition buildDeck :: "nat \<Rightarrow> card list" where
  "buildDeck numDecks =
     fold (\<lambda>d deck.
        fold (\<lambda>s deck.
          fold (\<lambda>r deck. deck @ [\<lparr>suit = s, rank = r\<rparr>]) ranks deck) suits deck)
       [0..<numDecks] []"

text \<open>
  \<open>deck.sort(() => Math.random() - 0.5)\<close> rearranges the array with a comparator that
  ignores its arguments. Which order comes out depends on the engine's sorting algorithm
  and on the random draws, neither of which is part of the source; a sort only rearranges
  the elements it is given. \<open>sort_random xs ys\<close> says that \<open>ys\<close> is a possible result of
  sorting \<open>xs\<close> this way, and \<open>generateDeck n deck\<close> that \<open>deck\<close> is a possible
  return value of \<open>generateDeck(n)\<close>.
\<close>

definition sort_random :: "'a list \<Rightarrow> 'a list \<Rightarrow> bool" where
  "sort_random xs ys = (mset ys = mset xs)"

definition generateDeck :: "nat \<Rightarrow> card list \<Rightarrow> bool" where
  "generateDeck numDecks deck = sort_random (buildDeck numDecks) deck"

definition hiLoValues :: "rank \<Rightarrow> int option" where
  "hiLoValues = map_of
     [(R2, 1), (R3, 1), (R4, 1), (R5, 1), (R6, 1),
      (R7, 0), (R8, 0), (R9, 0),
      (R10, -1), (J, -1), (Q, -1), (K, -1), (A, -1)]"

text \<open>\<open>x || 0\<close> on a number or undefined: undefined and 0 are falsy.\<close>

definition or_zero :: "int option \<Rightarrow> int" where
  "or_zero x = (case x of None \<Rightarrow> 0 | Some v \<Rightarrow> if v = 0 then 0 else v)"

definition updateRunningCount :: "card list \<Rightarrow> int \<Rightarrow> int" where
  "updateRunningCount deck runningCount =
     (let countChange = fold (\<lambda>card countChange. countChange + or_zero (hiLoValues (rank card))) deck 0
      in runningCount + countChange)"

text \<open>
  \<open>Math.round(x)\<close> is the integer nearest to \<open>x\<close>, halves going up: \<open>floor (x + 1/2)\<close>.
  The quotient is taken in the rationals.
\<close>

definition calculateTrueCount :: "int \<Rightarrow> int \<Rightarrow> int" where
  "calculateTrueCount runningCount decksRemaining =
     (if decksRemaining > 0
      then \<lfloor>(of_int runningCount / of_int decksRemaining :: rat) + 1 / 2\<rfloor>
      else runningCount)"

definition getDecksRemaining :: "card list \<Rightarrow> nat" where
  "getDecksRemaining deck = length deck div 52"

text \<open>A template literal splices an integer in as its decimal numeral.\<close>

fun show_nat :: "nat \<Rightarrow> string" where
  "show_nat n =
     (if n < 10 then [''0123456789'' ! n]
      else show_nat (n div 10) @ [''0123456789'' ! (n mod 10)])"

declare show_nat.simps [simp del]

definition show_int :: "int \<Rightarrow> string" where
  "show_int i = (if i < 0 then ''-'' @ show_nat (nat (- i)) else show_nat (nat i))"

definition basicStrategy :: "(string \<times> string) list" where
  "basicStrategy =
     [(''5_any'', ''hit''),
      (''6_any'', ''hit''),
      (''7_any'', ''hit''),
      (''8_any'', ''hit''),
      (''9_2'', ''hit''),
      (''9_3'', ''double_or_hit''),
      (''9_4'', ''double_or_hit''),
      (''9_5'', ''double''),
      (''9_6'', ''double''),
      (''9_7'', ''hit''),
      (''10_any'', ''double_or_hit''),
      (''11_any'', ''double''),
      (''12_2'', ''hit''),
      (''12_3'', ''hit''),
      (''12_4'', ''stand''),
      (''12_5'', ''stand''),
      (''12_6'', ''stand''),
      (''12_7'', ''hit''),
      (''13_2'', ''stand''),
      (''13_3'', ''stand''),
      (''13_4'', ''stand''),
      (''13_5'', ''stand''),
      (''13_6'', ''stand''),
      (''15_10'', ''surrender_or_hit''),
      (''16_10'', ''surrender_or_hit''),
      (''17_any'', ''stand''),
      (''18_any'', ''stand''),
      (''19_any'', ''stand''),
      (''20_any'', ''stand''),
      (''21_any'', ''stand'')]"

text \<open>
  \<open>a || b\<close> where \<open>a\<close> is a string or undefined and \<open>b\<close> a string: undefined and the
  empty string are falsy. (\<open>||\<close> is associative, so \<open>a || b || c\<close> is read as
  \<open>a || (b || c)\<close>.)
\<close>

definition or_else :: "string option \<Rightarrow> string \<Rightarrow> string" where
  "or_else a b = (case a of None \<Rightarrow> b | Some s \<Rightarrow> if s = [] then b else s)"

definition getOptimalMove :: "int \<Rightarrow> string \<Rightarrow> int \<Rightarrow> int \<Rightarrow> string" where
  "getOptimalMove playerTotal dealerUpcard runningCount decksRemaining =
     (let move0 =
            or_else (map_of basicStrategy (show_int playerTotal @ ''_'' @ dealerUpcard))
              (or_else (map_of basicStrategy (show_int playerTotal @ ''_any'')) ''hit'');
          trueCount = calculateTrueCount runningCount decksRemaining;
          move1 = (if trueCount \<ge> 2 \<and> move0 = ''hit'' then ''stand'' else move0);
          move2 = (if trueCount \<le> - 2 \<and> move1 = ''stand'' then ''hit'' else move1)
      in move2)"

text \<open>
  The advisory text of \<open>analyzeMove\<close>. A string holds bytes here, so the three
  glyphs of the source are written as their UTF-8 bytes.
\<close>

definition newline :: string where
  "newline = [CHR 0x0A]"

definition check_mark :: string where
  "check_mark = [CHR 0xE2, CHR 0x9C, CHR 0x85]"

definition cross_mark :: string where
  "cross_mark = [CHR 0xE2, CHR 0x9D, CHR 0x8C]"

definition bullet :: string where
  "bullet = [CHR 0xE2, CHR 0x80, CHR 0xA2]"

definition bustMap :: "int \<Rightarrow> int option" where
  "bustMap = map_of
     [(12, 31), (13, 39), (14, 56), (15, 58), (16, 62),
      (17, 69), (18, 77), (19, 85), (20, 92), (21, 100)]"

definition getBustProbability :: "int \<Rightarrow> int" where
  "getBustProbability tot =
     (if tot \<ge> 21 then 100
      else if tot \<le> 11 then 0
      else or_zero (bustMap tot))"

definition analyzeMove :: "int \<Rightarrow> string \<Rightarrow> string \<Rightarrow> int \<Rightarrow> int \<Rightarrow> string" where
  "analyzeMove playerTotal dealerUpcard playerAction runningCount decksRemaining =
     (let optimalMove = getOptimalMove playerTotal dealerUpcard runningCount decksRemaining;
          bustProbability = getBustProbability playerTotal;
          analysis0 = newline @ ''=== Hand Analysis ==='' @ newline
            @ ''Your Hand Total: '' @ show_int playerTotal @ newline
            @ ''Dealer's Upcard: '' @ dealerUpcard @ newline
            @ ''Probability of Busting if you hit: '' @ show_int bustProbability @ ''%'' @ newline
            @ newline
            @ ''Recommended Action: '';
          analysis1 = analysis0 @
            (if optimalMove = ''hit'' then
               ''Hit'' @ newline @ ''  '' @ bullet
               @ '' Your hand total is low enough that hitting gives you a chance to improve without a high risk of busting.''
             else if optimalMove = ''stand'' then
               ''Stand'' @ newline @ ''  '' @ bullet
               @ '' Your hand is strong, and taking another card might result in a bust.''
             else if optimalMove = ''double_or_hit'' then
               ''Double Down if available; otherwise, Hit'' @ newline @ ''  '' @ bullet
               @ '' You have a favorable chance to improve significantly.''
             else if optimalMove = ''surrender_or_hit'' then
               ''Surrender if allowed; otherwise, Hit'' @ newline @ ''  '' @ bullet
               @ '' Your hand is statistically weak compared to the dealer.''
             else ''Hit (default)'');
          analysis2 =
            (if playerAction = optimalMove \<or> (playerAction = ''double'' \<and> optimalMove = ''double_or_hit'')
             then check_mark @ '' Correct Choice!'' @ newline @ analysis1
             else cross_mark @ '' Incorrect Choice: You chose '' @ playerAction @ '' instead of ''
                  @ optimalMove @ ''.'' @ newline @ analysis1)
      in analysis2 @ newline
         @ ''  '' @ newline
         @ ''Additional Explanation:'' @ newline
         @ ''- A hand total of '' @ show_int playerTotal @ '' has about a '' @ show_int bustProbability
         @ ''% chance of busting if you take a hit.'' @ newline
         @ ''- This statistic is crucial for understanding the risk of drawing another card.'' @ newline
         @ ''- The lower this probability, the safer it is to hit; a high probability suggests you should stand to avoid busting.''
         @ newline)"

section \<open>Split logic (splitLogic.ts)\<close>

definition getCardValue :: "card \<Rightarrow> int option" where
  "getCardValue c =
     (if rank c = A then Some 11
      else if rank c \<in> set [K, Q, J] then Some 10
      else parseInt (rank c))"

text \<open>\<open>canSplit\<close> reads \<open>hand[0]\<close> and \<open>hand[1]\<close> only after the length test.\<close>

definition canSplit :: "card list \<Rightarrow> bool" where
  "canSplit hand =
     (if length hand \<noteq> 2 then False
      else getCardValue (hand ! 0) = getCardValue (hand ! 1))"

section \<open>Table orchestrator (BlackjackTable.tsx)\<close>

record player =
  pid :: int
  name :: string
  hand :: "card list"
  chips :: rat
  bet :: rat
  isBot :: bool

record handHistoryEntry =
  hh_playerName :: string
  hh_playerTotal :: int
  hh_dealerTotal :: int
  hh_outcome :: string

record chatEntry =
  ce_order :: int
  ce_sender :: string
  ce_message :: string

record splitHand =
  sh_hand :: "card list"
  sh_bet :: rat
  completed :: bool

text \<open>The moves of the human (\<open>"hit" | "stand" | "double" | "split"\<close>) and of the bots.\<close>

datatype action = Hit | Stand | Double | Split

fun action_str :: "action \<Rightarrow> string" where
  "action_str Hit = ''hit''"
| "action_str Stand = ''stand''"
| "action_str Double = ''double''"
| "action_str Split = ''split''"

definition calculateBotBet :: "player \<Rightarrow> int \<Rightarrow> rat" where
  "calculateBotBet botPlayer runningCount =
     (let baseBet = 50
      in if runningCount \<ge> 2 then min (chips botPlayer) (baseBet * 2)
         else min (chips botPlayer) baseBet)"

definition bot1Play :: "card list \<Rightarrow> string \<Rightarrow> int \<Rightarrow> action" where
  "bot1Play hnd dealerUpcard runningCount =
     (let tot = calculateTotal hnd
      in if length hnd = 2 \<and> (tot = 10 \<or> tot = 11) then Double
         else if runningCount \<ge> 2 then (if tot < 18 then Hit else Stand)
         else if runningCount \<le> - 2 then (if tot < 15 then Hit else Stand)
         else (if tot < 17 then Hit else Stand))"

definition bot2Play :: "card list \<Rightarrow> string \<Rightarrow> card list \<Rightarrow> int \<Rightarrow> action" where
  "bot2Play hnd dealerUpcard dck runningCount =
     (let tot = calculateTotal hnd
      in if length hnd = 2 \<and> (tot = 10 \<or> tot = 11) then Double
         else
           (let lowCards = length (filter (\<lambda>c. rank c \<in> set [R2, R3, R4, R5, R6]) dck);
                highCards = length (filter (\<lambda>c. rank c \<in> set [R10, J, Q, K, A]) dck)
            in if runningCount > 0 then (if tot < 16 then Hit else Stand)
               else if runningCount < 0 then (if tot < 14 then Hit else Stand)
               else (if tot < 16 then Hit else Stand)))"

text \<open>\<open>rnd\<close> is the value \<open>Math.random()\<close> returns when \<open>bot3Play\<close> draws it.\<close>

definition bot3Play :: "card list \<Rightarrow> string \<Rightarrow> int \<Rightarrow> rat \<Rightarrow> action" where
  "bot3Play hnd dealerUpcard runningCount rnd =
     (let tot = calculateTotal hnd
      in if length hnd = 2 \<and> (tot = 10 \<or> tot = 11) then Double
         else
           (let baseProbability = (if runningCount > 0 then 0.4 else 0.6)
            in if rnd < baseProbability then (if tot < 17 then Hit else Stand)
               else (if tot < 15 then Hit else Stand)))"

text \<open>The component's state: one field per \<open>useState\<close>.\<close>

record table_state =
  players :: "player list"
  deck :: "card list"
  dealerHand :: "card list"
  message :: string
  analysisMessage :: string
  sessionAnalysis :: string
  handHistory :: "handHistoryEntry list"
  handCount :: int
  dealerRevealed :: bool
  gameOver :: bool
  runningCount :: int
  bettingPhase :: bool
  chatLog :: "chatEntry list"
  dealComplete :: bool
  humanWins :: int
  humanLosses :: int
  humanPushes :: int
  splitHands :: "splitHand list option"
  activeSplitIndex :: nat

text \<open>The initial values of the state; \<open>deck0\<close> is what \<open>generateDeck()\<close> returned.\<close>

definition initialState :: "card list \<Rightarrow> table_state" where
  "initialState deck0 =
     \<lparr>players =
        [\<lparr>pid = 1, name = ''Bot 1'', hand = [], chips = 1000, bet = 0, isBot = True\<rparr>,
         \<lparr>pid = 2, name = ''Bot 2'', hand = [], chips = 1000, bet = 0, isBot = True\<rparr>,
         \<lparr>pid = 3, name = ''You'', hand = [], chips = 1000, bet = 0, isBot = False\<rparr>,
         \<lparr>pid = 4, name = ''Bot 3'', hand = [], chips = 1000, bet = 0, isBot = True\<rparr>],
      deck = deck0, dealerHand = [], message = '''', analysisMessage = '''',
      sessionAnalysis = '''', handHistory = [], handCount = 0, dealerRevealed = False,
      gameOver = False, runningCount = 0, bettingPhase = True, chatLog = [],
      dealComplete = False, humanWins = 0, humanLosses = 0, humanPushes = 0,
      splitHands = None, activeSplitIndex = 0\<rparr>"

text \<open>
  How a handler is modelled. A handler is a closure of one render: reading \<open>deck\<close>,
  \<open>dealerHand\<close>, \<open>runningCount\<close>, \<open>splitHands\<close> (the null test) or
  \<open>activeSplitIndex\<close> gives the value of that render, whatever \<open>setDeck\<close> and the
  others were called with in the meantime. Every handler below therefore takes the render's
  state \<open>r\<close>, and the inner ones also the state \<open>t\<close> built so far: a \<open>setX(v)\<close> overwrites
  the field of \<open>t\<close>, a \<open>setX(prev => ...)\<close> updates the field of \<open>t\<close>. Player and
  split-hand objects are shared between the render's arrays and their copies
  (\<open>[...players]\<close> copies the array, not the objects) and are mutated in place, so they are
  read from \<open>t\<close>. Reading a property of \<open>players[2]\<close> or of
  \<open>splitHands[activeSplitIndex]\<close> when that element is missing throws a TypeError: the
  handler then returns \<open>None\<close>.
\<close>

definition updateChatLog :: "chatEntry \<Rightarrow> table_state \<Rightarrow> table_state" where
  "updateChatLog entry t = t\<lparr>chatLog := chatLog t @ [entry]\<rparr>"

definition countChangeOf :: "card list \<Rightarrow> int" where
  "countChangeOf cards =
     fold (\<lambda>card countChange.
        if rank card \<in> set [R2, R3, R4, R5, R6] then countChange + 1
        else if rank card \<in> set [R10, J, Q, K, A] then countChange - 1
        else countChange) cards 0"

definition updateRunningCountForCards :: "card list \<Rightarrow> table_state \<Rightarrow> table_state" where
  "updateRunningCountForCards cards t = t\<lparr>runningCount := runningCount t + countChangeOf cards\<rparr>"

text \<open>In-place mutation of the player object at index \<open>i\<close>, of the split hand at \<open>i\<close>.\<close>

definition mutPlayer :: "nat \<Rightarrow> (player \<Rightarrow> player) \<Rightarrow> table_state \<Rightarrow> table_state" where
  "mutPlayer i f t = t\<lparr>players := (players t)[i := f (players t ! i)]\<rparr>"

definition mutSplitHand :: "nat \<Rightarrow> (splitHand \<Rightarrow> splitHand) \<Rightarrow> table_state \<Rightarrow> table_state" where
  "mutSplitHand i f t = t\<lparr>splitHands := map_option (\<lambda>shs. shs[i := f (shs ! i)]) (splitHands t)\<rparr>"

text \<open>\<open>arr.find(p => ...)\<close>, as the index of the object found.\<close>

fun findIndex :: "('a \<Rightarrow> bool) \<Rightarrow> 'a list \<Rightarrow> nat option" where
  "findIndex P [] = None"
| "findIndex P (x # xs) = (if P x then Some 0 else map_option Suc (findIndex P xs))"

text \<open>\<open>dealerHand[0]?.rank || ""\<close>\<close>

definition upcardOf :: "card list \<Rightarrow> string" where
  "upcardOf dh = (case dh of [] \<Rightarrow> '''' | c # _ \<Rightarrow> rank_str (rank c))"

text \<open>
  \<open>const newDeck = [...deck]; const newCard = newDeck.shift(); if (newCard) { hand.push(newCard);
  updateRunningCount([newCard]); setDeck(newDeck); }\<close>, with \<open>push\<close> the mutation of the
  hand that receives the card. An empty deck gives no card.
\<close>

definition drawCard :: "table_state \<Rightarrow> (card \<Rightarrow> table_state \<Rightarrow> table_state) \<Rightarrow> table_state \<Rightarrow> table_state" where
  "drawCard r push t =
     (case deck r of
        [] \<Rightarrow> t
      | newCard # newDeck \<Rightarrow> (updateRunningCountForCards [newCard] (push newCard t))\<lparr>deck := newDeck\<rparr>)"

definition pushToPlayer :: "nat \<Rightarrow> card \<Rightarrow> table_state \<Rightarrow> table_state" where
  "pushToPlayer i c t = mutPlayer i (\<lambda>p. p\<lparr>hand := hand p @ [c]\<rparr>) t"

definition pushToSplitHand :: "nat \<Rightarrow> card \<Rightarrow> table_state \<Rightarrow> table_state" where
  "pushToSplitHand i c t = mutSplitHand i (\<lambda>h. h\<lparr>sh_hand := sh_hand h @ [c]\<rparr>) t"

text \<open>
  The block the source repeats for Bot 1, Bot 2 and Bot 3 (it differs in the bot's name and
  chat order only): carry out \<open>act\<close> for the bot at index \<open>i\<close> and log it.
\<close>

definition botAct :: "string \<Rightarrow> int \<Rightarrow> action \<Rightarrow> table_state \<Rightarrow> nat \<Rightarrow> table_state \<Rightarrow> table_state" where
  "botAct botName ord act r i t =
     (if act = Double then
        (if chips (players t ! i) \<ge> bet (players t ! i) then
           (let t1 = mutPlayer i (\<lambda>p. p\<lparr>chips := chips p - bet p\<rparr>) t;
                t2 = mutPlayer i (\<lambda>p. p\<lparr>bet := bet p * 2\<rparr>) t1;
                t3 = drawCard r (pushToPlayer i) t2
            in updateChatLog \<lparr>ce_order = ord, ce_sender = botName,
                 ce_message = botName @ '' doubled down.''\<rparr> t3)
         else updateChatLog \<lparr>ce_order = ord, ce_sender = botName,
                ce_message = botName @ '' stood (insufficient chips to double down).''\<rparr> t)
      else if act = Hit then
        (case deck r of
           [] \<Rightarrow> updateChatLog \<lparr>ce_order = ord, ce_sender = botName, ce_message = ''''\<rparr> t
         | _ # _ \<Rightarrow> updateChatLog \<lparr>ce_order = ord, ce_sender = botName,
                ce_message = botName @ '' hit.''\<rparr> (drawCard r (pushToPlayer i) t))
      else updateChatLog \<lparr>ce_order = ord, ce_sender = botName,
             ce_message = botName @ '' stood.''\<rparr> t)"

definition handleBotsTurn :: "table_state \<Rightarrow> table_state" where
  "handleBotsTurn r =
     (let dealerUpcard = upcardOf (dealerHand r);
          t1 = (case findIndex (\<lambda>p. pid p = 1) (players r) of
                  None \<Rightarrow> r
                | Some i \<Rightarrow> botAct ''Bot 1'' 1
                    (bot1Play (hand (players r ! i)) dealerUpcard (runningCount r)) r i r);
          t2 = (case findIndex (\<lambda>p. pid p = 2) (players t1) of
                  None \<Rightarrow> t1
                | Some i \<Rightarrow> botAct ''Bot 2'' 2
                    (bot2Play (hand (players t1 ! i)) dealerUpcard (deck r) (runningCount r)) r i t1)
      in t2\<lparr>message := ''Your Turn''\<rparr>)"

text \<open>The dealer's \<open>while (dealerTotal < 17 && newDeck.length > 0)\<close> loop.\<close>

fun dealerLoop :: "card list \<Rightarrow> card list \<Rightarrow> table_state \<Rightarrow> card list \<times> card list \<times> table_state" where
  "dealerLoop newDealerHand [] t = (newDealerHand, [], t)"
| "dealerLoop newDealerHand (c # newDeck) t =
     (if calculateTotal newDealerHand < 17
      then dealerLoop (newDealerHand @ [c]) newDeck (updateRunningCountForCards [c] t)
      else (newDealerHand, c # newDeck, t))"

text \<open>The outcome message \<open>revealDealerHand\<close> computes from the two totals.\<close>

definition outcomeMessage :: "int \<Rightarrow> int \<Rightarrow> string" where
  "outcomeMessage playerTotal dealerTotal =
     (if playerTotal > 21 then ''Bust''
      else if dealerTotal > 21 then ''Dealer busts, you win!''
      else if dealerTotal > playerTotal then ''Dealer wins!''
      else if dealerTotal < playerTotal then ''You win!''
      else ''Push!'')"

text \<open>
  The payout step of \<open>revealDealerHand\<close>: the human's chips and the session counters,
  from the outcome message, the human's total and the bet on the main hand.
\<close>

definition settleHuman :: "string \<Rightarrow> int \<Rightarrow> table_state \<Rightarrow> table_state" where
  "settleHuman outcome playerTotal t =
     (let humanIndex = 2;
          currentBet = bet (players t ! humanIndex)
      in if outcome = ''You win!'' \<or> outcome = ''Dealer busts, you win!'' then
           (if playerTotal = 21
            then mutPlayer humanIndex (\<lambda>p. p\<lparr>chips := chips p + currentBet * 2.5\<rparr>) t
            else mutPlayer humanIndex (\<lambda>p. p\<lparr>chips := chips p + currentBet * 2\<rparr>) t)
           \<lparr>humanWins := humanWins t + 1\<rparr>
         else if outcome = ''Push!'' then
           (mutPlayer humanIndex (\<lambda>p. p\<lparr>chips := chips p + currentBet\<rparr>) t)
           \<lparr>humanPushes := humanPushes t + 1\<rparr>
         else t\<lparr>humanLosses := humanLosses t + 1\<rparr>)"

definition revealDealerHand :: "table_state \<Rightarrow> table_state \<Rightarrow> table_state option" where
  "revealDealerHand r t =
     (case dealerLoop (dealerHand r) (deck r) (t\<lparr>dealerRevealed := True\<rparr>) of
        (newDealerHand, newDeck, t1) \<Rightarrow>
          (let dealerTotal = calculateTotal newDealerHand;
               t2 = t1\<lparr>dealerHand := newDealerHand, deck := newDeck\<rparr>
           in if length (players t2) \<le> 2 then None
              else
                (let playerTotal = calculateTotal (hand (players t2 ! 2));
                     outcome = outcomeMessage playerTotal dealerTotal;
                     t3 = t2\<lparr>message := outcome\<rparr>;
                     t4 = settleHuman outcome playerTotal t3
                 in Some (t4\<lparr>gameOver := True, handHistory := [], handCount := handCount t4 + 1\<rparr>))))"

definition handleBotsTurnAfterHuman :: "rat \<Rightarrow> table_state \<Rightarrow> table_state \<Rightarrow> table_state option" where
  "handleBotsTurnAfterHuman rnd r t =
     (let dealerUpcard = upcardOf (dealerHand r);
          t1 = (case findIndex (\<lambda>p. pid p = 4) (players t) of
                  None \<Rightarrow> t
                | Some i \<Rightarrow> botAct ''Bot 3'' 7
                    (bot3Play (hand (players t ! i)) dealerUpcard (runningCount r) rnd) r i t)
      in revealDealerHand r (t1\<lparr>message := ''Dealer's Turn...''\<rparr>))"

text \<open>
  One pass of \<open>newPlayers.forEach\<close> in \<open>startNewHand\<close>: each player in turn gets the
  front card of the new deck, if there is one.
\<close>

fun dealRound :: "player list \<Rightarrow> card list \<Rightarrow> table_state \<Rightarrow> player list \<times> card list \<times> table_state" where
  "dealRound [] newDeck t = ([], newDeck, t)"
| "dealRound (p # ps) [] t = (case dealRound ps [] t of (ps1, d1, t1) \<Rightarrow> (p # ps1, d1, t1))"
| "dealRound (p # ps) (c # newDeck) t =
     (case dealRound ps newDeck (updateRunningCountForCards [c] t) of
        (ps1, d1, t1) \<Rightarrow> (p\<lparr>hand := hand p @ [c]\<rparr> # ps1, d1, t1))"

definition dealDealerCard :: "card list \<times> card list \<times> table_state \<Rightarrow> card list \<times> card list \<times> table_state" where
  "dealDealerCard x =
     (case x of
        (newDealerHand, [], t) \<Rightarrow> (newDealerHand, [], t)
      | (newDealerHand, c # newDeck, t) \<Rightarrow>
          (newDealerHand @ [c], newDeck, updateRunningCountForCards [c] t))"

text \<open>\<open>startNewHand\<close>; \<open>newDeck\<close> is what its call of \<open>generateDeck()\<close> returned.\<close>

definition startNewHand :: "card list \<Rightarrow> table_state \<Rightarrow> table_state \<Rightarrow> table_state" where
  "startNewHand newDeck r t =
     (let newPlayers0 = map (\<lambda>p. p\<lparr>hand := []\<rparr>) (players r);
          t0 = t\<lparr>splitHands := None\<rparr>;
          newPlayers1 = map (\<lambda>p. if isBot p
                                   then (let botBet = calculateBotBet p (runningCount r)
                                         in p\<lparr>bet := botBet, chips := chips p - botBet\<rparr>)
                                   else p) newPlayers0
      in case dealRound newPlayers1 newDeck t0 of
           (newPlayers2, deck2, t2) \<Rightarrow>
             (case dealRound newPlayers2 deck2 t2 of
                (newPlayers3, deck3, t3) \<Rightarrow>
                  (case dealDealerCard (dealDealerCard ([], deck3, t3)) of
                     (newDealerHand, deck4, t4) \<Rightarrow>
                       t4\<lparr>players := newPlayers3, dealerHand := newDealerHand,
                          dealerRevealed := False, message := ''Bots' Turn...'',
                          gameOver := False, analysisMessage := [], deck := deck4\<rparr>)))"

text \<open>The \<open>onConfirmBet\<close> callback given to the betting panel.\<close>

definition onConfirmBet :: "int \<Rightarrow> table_state \<Rightarrow> table_state option" where
  "onConfirmBet betAmount r =
     (if length (players r) \<le> 2 then None
      else Some ((mutPlayer 2 (\<lambda>p. p\<lparr>chips := chips p - of_int betAmount\<rparr>)
                   (mutPlayer 2 (\<lambda>p. p\<lparr>bet := of_int betAmount\<rparr>) r))
                 \<lparr>bettingPhase := False\<rparr>))"

text \<open>
  A confirmed bet and the two effects it sets off. The effect on \<open>bettingPhase\<close> clears the
  chat log, deals the hand and raises \<open>dealComplete\<close> (\<open>confirmAndDeal\<close>); in the next
  render the effect on \<open>dealComplete\<close> lets Bot 1 and Bot 2 play and lowers it again
  (\<open>betAndDeal\<close>, the table as the human finds it).
\<close>

definition confirmAndDeal :: "card list \<Rightarrow> int \<Rightarrow> table_state \<Rightarrow> table_state option" where
  "confirmAndDeal newDeck betAmount r =
     (case onConfirmBet betAmount r of
        None \<Rightarrow> None
      | Some r1 \<Rightarrow> Some ((startNewHand newDeck r1 (r1\<lparr>chatLog := []\<rparr>))\<lparr>dealComplete := True\<rparr>))"

definition betAndDeal :: "card list \<Rightarrow> int \<Rightarrow> table_state \<Rightarrow> table_state option" where
  "betAndDeal newDeck betAmount r =
     (case confirmAndDeal newDeck betAmount r of
        None \<Rightarrow> None
      | Some r2 \<Rightarrow> Some ((handleBotsTurn r2)\<lparr>dealComplete := False\<rparr>))"

text \<open>\<open>createSplitHands\<close> is only called on a hand of two cards (see \<open>handleSplit\<close>).\<close>

definition createSplitHands :: "card list \<Rightarrow> rat \<Rightarrow> (card list \<times> card list) \<times> rat" where
  "createSplitHands hnd b = (([hnd ! 0], [hnd ! 1]), b)"

definition handleSplit :: "table_state \<Rightarrow> table_state option" where
  "handleSplit r =
     (if length (players r) \<le> 2 then None
      else
        (let human = players r ! 2
         in if length (hand human) = 2 \<and> canSplit (hand human) then
              (if chips human < bet human
               then Some (r\<lparr>analysisMessage := ''Not enough chips to split.''\<rparr>)
               else
                 (let extraBet = bet human;
                      t1 = mutPlayer 2 (\<lambda>p. p\<lparr>chips := chips p - extraBet\<rparr>) r
                  in case createSplitHands (hand human) (bet human) of
                       ((h0, h1), newBet) \<Rightarrow>
                         (let t2 = t1\<lparr>splitHands := Some
                                [\<lparr>sh_hand = h0, sh_bet = newBet, completed = False\<rparr>,
                                 \<lparr>sh_hand = h1, sh_bet = newBet, completed = False\<rparr>]\<rparr>;
                              t3 = mutPlayer 2 (\<lambda>p. p\<lparr>hand := []\<rparr>) t2;
                              t4 = t3\<lparr>activeSplitIndex := 0\<rparr>
                          in Some (updateChatLog \<lparr>ce_order = 5, ce_sender = ''You'',
                                     ce_message = ''Hand split into two hands.''\<rparr> t4))))
            else Some (r\<lparr>analysisMessage :=
                   ''Cannot split: Your two cards do not have the same value.''\<rparr>)))"

text \<open>
  The three places of \<open>handleSplitMove\<close> where a split hand is finished: move on to the
  next split hand, or, after the last one, to Bot 3 and the dealer.
\<close>

definition advanceOrResolve :: "rat \<Rightarrow> table_state \<Rightarrow> nat \<Rightarrow> table_state \<Rightarrow> table_state option" where
  "advanceOrResolve rnd r n t =
     (if activeSplitIndex r + 1 < n
      then Some (t\<lparr>activeSplitIndex := activeSplitIndex r + 1, analysisMessage := ''''\<rparr>)
      else handleBotsTurnAfterHuman rnd r t)"

definition handleSplitMove :: "rat \<Rightarrow> action \<Rightarrow> table_state \<Rightarrow> table_state option" where
  "handleSplitMove rnd act r =
     (case splitHands r of
        None \<Rightarrow> Some r
      | Some shs \<Rightarrow>
          (let i = activeSplitIndex r
           in if length shs \<le> i then None
              else
                (let currentHand = sh_hand (shs ! i);
                     currentBet = sh_bet (shs ! i);
                     orderForSplit = (if i = 0 then 5 else 6);
                     handLabel = ''Hand '' @ show_int (int i + 1) @ '': '';
                     t0 = updateChatLog \<lparr>ce_order = orderForSplit, ce_sender = ''You (split)'',
                            ce_message = handLabel @ action_str act\<rparr> r
                 in if act = Hit then
                      (let t1 = drawCard r (pushToSplitHand i) t0
                       in if (case splitHands t1 of
                                None \<Rightarrow> False
                              | Some shs1 \<Rightarrow> calculateTotal (sh_hand (shs1 ! i)) > 21) then
                            (let t2 = mutSplitHand i (\<lambda>h. h\<lparr>completed := True\<rparr>) t1;
                                 t3 = updateChatLog \<lparr>ce_order = orderForSplit,
                                        ce_sender = ''You (split)'', ce_message = handLabel @ ''Bust''\<rparr> t2
                             in advanceOrResolve rnd r (length shs) t3)
                          else Some t1)
                    else if act = Stand then
                      (let t1 = mutSplitHand i (\<lambda>h. h\<lparr>completed := True\<rparr>) t0;
                           t2 = updateChatLog \<lparr>ce_order = orderForSplit,
                                  ce_sender = ''You (split)'', ce_message = handLabel @ ''Stand''\<rparr> t1
                       in advanceOrResolve rnd r (length shs) t2)
                    else if act = Double then
                      (if length currentHand = 1 then
                         (if length (players t0) \<le> 2 then None
                          else if chips (players t0 ! 2) < currentBet then
                            Some (t0\<lparr>analysisMessage :=
                              ''Not enough chips to double down on this hand.''\<rparr>)
                          else
                            (let t1 = mutPlayer 2 (\<lambda>p. p\<lparr>chips := chips p - currentBet\<rparr>) t0;
                                 t2 = mutSplitHand i (\<lambda>h. h\<lparr>sh_bet := sh_bet h * 2\<rparr>) t1;
                                 t3 = drawCard r (pushToSplitHand i) t2;
                                 t4 = mutSplitHand i (\<lambda>h. h\<lparr>completed := True\<rparr>) t3;
                                 t5 = updateChatLog \<lparr>ce_order = orderForSplit,
                                        ce_sender = ''You (split)'',
                                        ce_message = handLabel @ ''Doubled down''\<rparr> t4
                             in advanceOrResolve rnd r (length shs) t5))
                       else Some (t0\<lparr>analysisMessage :=
                              ''Doubling down is only allowed on your initial card in a split hand.''\<rparr>))
                    else Some t0)))"

text \<open>
  The call sites pass \<open>analyzeMove\<close> three arguments. The two missing ones are
  \<open>undefined\<close>, every comparison with \<open>undefined\<close> is false, so \<open>getOptimalMove\<close>
  applies no count adjustment there: this is what running count 0 and 0 decks give.
\<close>

definition handlePlayerMove :: "rat \<Rightarrow> action \<Rightarrow> table_state \<Rightarrow> table_state option" where
  "handlePlayerMove rnd act r =
     (if act = Split then handleSplit r
      else if splitHands r \<noteq> None then handleSplitMove rnd act r
      else if length (players r) \<le> 2 then None
      else
        (let playerTotal = calculateTotal (hand (players r ! 2));
             moveAnalysis = analyzeMove playerTotal (upcardOf (dealerHand r)) (action_str act) 0 0;
             t0 = updateChatLog \<lparr>ce_order = 5, ce_sender = ''You'',
                    ce_message = (if act = Hit then ''You hit.''
                                  else if act = Stand then ''You stood.''
                                  else ''You doubled down.'')\<rparr> r;
             t1 = t0\<lparr>analysisMessage := moveAnalysis\<rparr>
         in if act = Hit then
              (case deck r of
                 [] \<Rightarrow> Some t1
               | _ # _ \<Rightarrow>
                   (let t2 = drawCard r (pushToPlayer 2) t1
                    in if calculateTotal (hand (players t2 ! 2)) > 21 then
                         revealDealerHand r
                           (t2\<lparr>message := cross_mark @ '' You Bust!'',
                               analysisMessage := moveAnalysis @ '' You Bust!''\<rparr>)
                       else Some t2))
            else if act = Stand then
              handleBotsTurnAfterHuman rnd r (t1\<lparr>message := ''Dealer's Turn...''\<rparr>)
            else
              (if length (hand (players t1 ! 2)) = 2 then
                 (let extraBet = bet (players t1 ! 2)
                  in if chips (players t1 ! 2) < extraBet
                     then Some (t1\<lparr>analysisMessage := ''Not enough chips to double down.''\<rparr>)
                     else
                       (let t2 = mutPlayer 2 (\<lambda>p. p\<lparr>chips := chips p - extraBet\<rparr>) t1;
                            t3 = mutPlayer 2 (\<lambda>p. p\<lparr>bet := bet p * 2\<rparr>) t2;
                            t4 = drawCard r (pushToPlayer 2) t3
                        in handleBotsTurnAfterHuman rnd r t4))
               else Some (t1\<lparr>analysisMessage :=
                      ''Doubling down is only allowed on your initial 2 cards.''\<rparr>))))"

definition nextHand :: "table_state \<Rightarrow> table_state" where
  "nextHand r =
     (if handCount r \<ge> 5 then
        (let analysisSummary = ''Cumulative Results: Wins: '' @ show_int (humanWins r)
               @ '', Losses: '' @ show_int (humanLosses r)
               @ '', Pushes: '' @ show_int (humanPushes r)
         in r\<lparr>sessionAnalysis := analysisSummary, handHistory := [], handCount := 0,
              runningCount := 0\<rparr>)
      else r\<lparr>bettingPhase := True\<rparr>)"

section \<open>Reference definitions\<close>

text \<open>
  The definitions of this section are not translations of source functions: they state, in
  the specification's own terms, what the source functions are compared with.
\<close>

text \<open>The 52 cards of one deck, suit by suit.\<close>

definition oneDeck :: "card list" where
  "oneDeck = concat (map (\<lambda>s. map (\<lambda>r. \<lparr>suit = s, rank = r\<rparr>) ranks) suits)"

text \<open>The Hi-Lo weight of a rank: +1 for 2-6, 0 for 7-9, -1 for 10, J, Q, K, A.\<close>

fun hiLoWeight :: "rank \<Rightarrow> int" where
  "hiLoWeight R2 = 1" | "hiLoWeight R3 = 1" | "hiLoWeight R4 = 1" | "hiLoWeight R5 = 1" | "hiLoWeight R6 = 1"
| "hiLoWeight R7 = 0" | "hiLoWeight R8 = 0" | "hiLoWeight R9 = 0"
| "hiLoWeight r = - 1"

text \<open>The value a card is first counted with: an ace 11, a face card 10, 2-10 literal.\<close>

fun initialValue :: "rank \<Rightarrow> int" where
  "initialValue A = 11"
| "initialValue K = 10" | "initialValue Q = 10" | "initialValue J = 10"
| "initialValue R2 = 2" | "initialValue R3 = 3" | "initialValue R4 = 4" | "initialValue R5 = 5" | "initialValue R6 = 6"
| "initialValue R7 = 7" | "initialValue R8 = 8" | "initialValue R9 = 9" | "initialValue R10 = 10"

text \<open>Every total a hand can be counted as, each ace being 1 or 11.\<close>

fun achievableTotals :: "card list \<Rightarrow> int set" where
  "achievableTotals [] = {0}"
| "achievableTotals (c # cs) =
     (if rank c = A
      then (\<lambda>t. 1 + t) ` achievableTotals cs \<union> (\<lambda>t. 11 + t) ` achievableTotals cs
      else (\<lambda>t. initialValue (rank c) + t) ` achievableTotals cs)"

definition numAces :: "card list \<Rightarrow> nat" where
  "numAces hnd = length (filter (\<lambda>c. rank c = A) hnd)"

text \<open>The five moves that occur in \<open>basicStrategy\<close>, and the table lookup with its fallbacks.\<close>

definition tableMoves :: "string set" where
  "tableMoves = {''hit'', ''stand'', ''double'', ''double_or_hit'', ''surrender_or_hit''}"

definition tableMove :: "int \<Rightarrow> string \<Rightarrow> string" where
  "tableMove playerTotal dealerUpcard =
     (case map_of basicStrategy (show_int playerTotal @ ''_'' @ dealerUpcard) of
        Some m \<Rightarrow> m
      | None \<Rightarrow> (case map_of basicStrategy (show_int playerTotal @ ''_any'') of
                   Some m \<Rightarrow> m
                 | None \<Rightarrow> ''hit''))"

text \<open>
  What dealer resolution pays on a bet \<open>b\<close>, as the amended claim C1 states it: a win (in
  the sense of \<open>computeOutcome\<close>) pays 2.5 times the bet when the player's total is 21 and
  twice the bet otherwise, a push returns the bet, anything else pays nothing.
\<close>

definition payout :: "int \<Rightarrow> int \<Rightarrow> rat \<Rightarrow> rat" where
  "payout playerTotal dealerTotal b =
     (if computeOutcome playerTotal dealerTotal = ''Win''
      then (if playerTotal = 21 then b * 2.5 else b * 2)
      else if computeOutcome playerTotal dealerTotal = ''Push'' then b
      else 0)"

text \<open>The dealer's hand once the dealer has drawn from \<open>d\<close> while below 17.\<close>

fun dealerFinalHand :: "card list \<Rightarrow> card list \<Rightarrow> card list" where
  "dealerFinalHand h [] = h"
| "dealerFinalHand h (c # d) = (if calculateTotal h < 17 then dealerFinalHand (h @ [c]) d else h)"



section \<open>Example shoes and sessions\<close>

abbreviation Card :: "suit \<Rightarrow> rank \<Rightarrow> card" where
  "Card s r \<equiv> \<lparr>suit = s, rank = r\<rparr>"

text \<open>
  A six-deck shoe with the cards \<open>front\<close> on top: they are taken out of the deck that the
  loops of \<open>generateDeck\<close> build and put in front of what is left.
\<close>

definition shoe :: "card list \<Rightarrow> card list" where
  "shoe front = front @ fold remove1 front (buildDeck 6)"

text \<open>
  The top cards of five shoes, in the order they are dealt: one card each to Bot 1, Bot 2,
  the human and Bot 3, a second round, two cards to the dealer, then the draws. In each the
  dealer holds K 7. In \<open>frontBust\<close> the human holds 10 6 and the next card is a king; in
  \<open>frontSevens\<close> the human holds 7 7 and the next card is a 7; in \<open>frontPair\<close> the
  human holds 8 8; in \<open>frontTwenty\<close> the human holds K Q and every bot stands; in
  \<open>frontElevens\<close> every seat holds 11.
\<close>

definition frontBust :: "card list" where
  "frontBust =
     [Card Spades R10, Card Hearts R9, Card Clubs R10, Card Spades R5,
      Card Spades R7, Card Hearts R8, Card Clubs R6, Card Spades R6,
      Card Diamonds K, Card Diamonds R7,
      Card Hearts K, Card Hearts R2]"

definition frontSevens :: "card list" where
  "frontSevens =
     [Card Spades R10, Card Hearts R9, Card Clubs R7, Card Clubs R10,
      Card Spades R7, Card Hearts R8, Card Diamonds R7, Card Spades R8,
      Card Diamonds K, Card Spades R7,
      Card Hearts R7, Card Hearts R2]"

definition frontPair :: "card list" where
  "frontPair =
     [Card Spades R10, Card Hearts R9, Card Clubs R8, Card Clubs R10,
      Card Spades R7, Card Hearts R8, Card Diamonds R8, Card Spades R8,
      Card Diamonds K, Card Diamonds R7,
      Card Hearts R3, Card Hearts R2]"

definition frontTwenty :: "card list" where
  "frontTwenty =
     [Card Spades R10, Card Hearts R9, Card Clubs K, Card Clubs R10,
      Card Spades R7, Card Hearts R8, Card Diamonds Q, Card Spades R8,
      Card Diamonds K, Card Diamonds R7,
      Card Hearts R3, Card Hearts R2]"

definition frontElevens :: "card list" where
  "frontElevens =
     [Card Spades R5, Card Hearts R6, Card Diamonds R5, Card Clubs R4,
      Card Spades R6, Card Hearts R5, Card Diamonds R6, Card Clubs R7,
      Card Diamonds K, Card Diamonds R7,
      Card Hearts R3, Card Hearts R2]"

text \<open>
  A whole hand in which the human bets 100 and stands at once; the click on "Next Hand"
  that leads to the betting panel (after a fifth hand the first click only resets the
  counters, the second one opens the panel); and both in a row.
\<close>

definition standHand :: "card list \<Rightarrow> table_state \<Rightarrow> table_state option" where
  "standHand newDeck r = Option.bind (betAndDeal newDeck 100 r) (handlePlayerMove 0 Stand)"

definition nextBet :: "table_state \<Rightarrow> table_state" where
  "nextBet s = (let s1 = nextHand s in if bettingPhase s1 then s1 else nextHand s1)"

definition thenStandHand :: "card list \<Rightarrow> table_state option \<Rightarrow> table_state option" where
  "thenStandHand newDeck x = Option.bind x (\<lambda>s. standHand newDeck (nextBet s))"

text \<open>
  Three sessions from the first render on (\<open>deck0\<close> is the shoe of the initial state,
  which the first deal replaces): two hands, won and lost; five hands, won and lost in
  turn; nineteen hands played with the same shoe.
\<close>

definition twoHands :: "card list \<Rightarrow> card list \<Rightarrow> card list \<Rightarrow> table_state option" where
  "twoHands won lost deck0 = thenStandHand lost (standHand won (initialState deck0))"

definition fiveHands :: "card list \<Rightarrow> card list \<Rightarrow> card list \<Rightarrow> table_state option" where
  "fiveHands won lost deck0 =
     thenStandHand won (thenStandHand lost (thenStandHand won (twoHands won lost deck0)))"


section \<open>Outcome of a hand\<close>

text \<open>
  C9. For all integer totals \<open>computeOutcome\<close> returns exactly one of Bust, Win, Lose,
  Push: Bust exactly when the player is over 21; otherwise Win exactly when the dealer is
  over 21 or below the player, Lose exactly when the dealer is at most 21 and above the
  player, Push exactly when the totals are equal. The four examples of the specification
  evaluate as stated.
\<close>

theorem computeOutcome_rule:
  "computeOutcome p d \<in> {''Bust'', ''Win'', ''Lose'', ''Push''}
   \<and> (computeOutcome p d = ''Bust'') = (p > 21)
   \<and> (computeOutcome p d = ''Win'') = (p \<le> 21 \<and> (d > 21 \<or> d < p))
   \<and> (computeOutcome p d = ''Lose'') = (p \<le> 21 \<and> d \<le> 21 \<and> d > p)
   \<and> (computeOutcome p d = ''Push'') = (p \<le> 21 \<and> d = p)
   \<and> computeOutcome 22 20 = ''Bust''
   \<and> computeOutcome 20 22 = ''Win''
   \<and> computeOutcome 18 18 = ''Push''
   \<and> computeOutcome 19 18 = ''Win''"
  by (auto simp: computeOutcome_def)

section \<open>The shoe\<close>

lemma fold_push_map: "fold (\<lambda>r dk. dk @ [f r]) rs dk = dk @ map f rs"
  by (induction rs arbitrary: dk) auto

lemma fold_append_concat: "fold (\<lambda>s dk. dk @ g s) ss dk = dk @ concat (map g ss)"
  by (induction ss arbitrary: dk) auto

lemma buildDeck_concat: "buildDeck n = concat (replicate n oneDeck)"
proof -
  have "buildDeck n = fold (\<lambda>d dk. dk @ oneDeck) [0..<n] []"
    by (simp add: buildDeck_def fold_push_map fold_append_concat oneDeck_def)
  also have "\<dots> = [] @ concat (map (\<lambda>d. oneDeck) [0..<n])"
    by (rule fold_append_concat)
  also have "map (\<lambda>d. oneDeck) [0..<n] = replicate n oneDeck"
    by (simp add: map_replicate_const)
  finally show ?thesis by simp
qed

lemma count_oneDeck: "count_list oneDeck c = 1"
  by (cases c; cases "suit c"; cases "rank c"; simp add: oneDeck_def suits_def ranks_def)

lemma count_concat_replicate: "count_list (concat (replicate n xs)) c = n * count_list xs c"
  by (induction n) auto

lemma length_concat_replicate: "length (concat (replicate n xs)) = n * length xs"
  by (induction n) auto

lemma length_oneDeck: "length oneDeck = 52"
  by (simp add: oneDeck_def suits_def ranks_def)

lemma count_list_mset: "count_list xs c = count (mset xs) c"
  by (induction xs) auto

text \<open>
  C8. Every deck \<open>generateDeck\<close> can return for \<open>numDecks = 6\<close> has exactly 312 cards,
  holds each of the 52 suit/rank combinations exactly 6 times, and is a permutation of the
  deck built by the three loops.
\<close>

theorem generateDeck_six:
  assumes "generateDeck 6 dk"
  shows "length dk = 312
       \<and> (\<forall>s r. count_list dk \<lparr>suit = s, rank = r\<rparr> = 6)
       \<and> mset dk = mset (buildDeck 6)"
proof -
  from assms have m: "mset dk = mset (buildDeck 6)"
    by (simp add: generateDeck_def sort_random_def)
  then have "length dk = length (buildDeck 6)"
    by (rule mset_eq_length)
  then have l: "length dk = 312"
    by (simp add: buildDeck_concat length_concat_replicate length_oneDeck)
  have "count_list dk c = 6" for c
  proof -
    have "count_list dk c = count (mset (buildDeck 6)) c"
      using m by (simp add: count_list_mset)
    also have "\<dots> = count_list (concat (replicate 6 oneDeck)) c"
      by (simp add: count_list_mset buildDeck_concat)
    also have "\<dots> = 6"
      by (simp only: count_concat_replicate count_oneDeck)
    finally show ?thesis .
  qed
  with l m show ?thesis by simp
qed

theorem generateDeck_six_witness:
  "generateDeck 6 (rev (buildDeck 6)) \<and> length (rev (buildDeck 6)) = 312
    \<and> count_list (rev (buildDeck 6)) \<lparr>suit = Hearts, rank = Q\<rparr> = 6"
  using generateDeck_six [of "rev (buildDeck 6)"]
  by (simp add: generateDeck_def sort_random_def)


text \<open>The example shoes are shoes \<open>generateDeck(6)\<close> can return.\<close>

lemma mset_fold_remove1: "mset (fold remove1 front xs) = mset xs - mset front"
  by (induction front arbitrary: xs) (simp_all add: multiset_eq_iff)

lemma shoe_generated:
  assumes "\<forall>c\<in>set front. count_list front c \<le> 6"
  shows "generateDeck 6 (shoe front)"
proof -
  have "count (mset front) c \<le> count (mset (buildDeck 6)) c" for c
  proof (cases "c \<in> set front")
    case True
    with assms have "count_list front c \<le> 6" by blast
    then show ?thesis
      by (simp add: count_list_mset [symmetric] buildDeck_concat count_concat_replicate count_oneDeck)
  next
    case False
    then have "count_list front c = 0" by (simp add: count_list_0_iff)
    then show ?thesis by (simp add: count_list_mset [symmetric])
  qed
  then have "mset front \<subseteq># mset (buildDeck 6)"
    by (simp add: mset_subset_eqI)
  then show ?thesis
    by (simp add: generateDeck_def sort_random_def shoe_def mset_fold_remove1)
qed

lemma shoes_generated:
  "generateDeck 6 (shoe frontBust)" "generateDeck 6 (shoe frontSevens)"
  "generateDeck 6 (shoe frontPair)" "generateDeck 6 (shoe frontTwenty)"
  "generateDeck 6 (shoe frontElevens)"
  by (rule shoe_generated, code_simp)+

lemma buildDeck_generated: "generateDeck 6 (buildDeck 6)"
  by (simp add: generateDeck_def sort_random_def)

section \<open>The running count\<close>

lemma or_zero_hiLo: "or_zero (hiLoValues r) = hiLoWeight r"
  by (cases r) (simp_all add: or_zero_def hiLoValues_def)

lemma fold_countChange:
  "fold (\<lambda>card cc. cc + or_zero (hiLoValues (rank card))) dk a = a + sum_list (map (\<lambda>c. hiLoWeight (rank c)) dk)"
  by (induction dk arbitrary: a) (simp_all add: or_zero_hiLo)

lemma updateRunningCount_sum:
  "updateRunningCount dk c = c + sum_list (map (\<lambda>c. hiLoWeight (rank c)) dk)"
  by (simp add: updateRunningCount_def fold_countChange)

lemma sum_list_perm: "mset xs = mset ys \<Longrightarrow> sum_list (map f xs) = (sum_list (map f ys) :: int)"
proof -
  assume "mset xs = mset ys"
  then have "sum_mset (image_mset f (mset xs)) = sum_mset (image_mset f (mset ys))" by simp
  then show ?thesis by (simp only: mset_map [symmetric] sum_mset_sum_list)
qed

lemma fold_single: "fold (\<lambda>card acc. updateRunningCount [card] acc) dk c = updateRunningCount dk c"
  by (induction dk arbitrary: c) (simp_all add: updateRunningCount_sum)

text \<open>
  C10. For every list of cards and starting count, \<open>updateRunningCount\<close> returns the
  starting count plus the sum of the Hi-Lo weights of the cards; the result is the same for
  any permutation of the list, applying the function to successive sublists composes, and
  so does feeding it the cards one at a time.
\<close>

theorem updateRunningCount_fold:
  "updateRunningCount dk c = c + sum_list (map (\<lambda>c. hiLoWeight (rank c)) dk)
   \<and> (mset dk = mset dk' \<longrightarrow> updateRunningCount dk c = updateRunningCount dk' c)
   \<and> updateRunningCount (xs @ ys) c = updateRunningCount ys (updateRunningCount xs c)
   \<and> fold (\<lambda>card acc. updateRunningCount [card] acc) dk c = updateRunningCount dk c"
proof -
  have "mset dk = mset dk' \<longrightarrow> updateRunningCount dk c = updateRunningCount dk' c"
    using sum_list_perm [of dk dk' "\<lambda>c. hiLoWeight (rank c)"]
    by (simp add: updateRunningCount_sum)
  moreover have "updateRunningCount (xs @ ys) c = updateRunningCount ys (updateRunningCount xs c)"
    by (simp add: updateRunningCount_sum)
  ultimately show ?thesis
    using updateRunningCount_sum [of dk c] fold_single [of dk c] by blast
qed

theorem updateRunningCount_fold_witness:
  "mset [\<lparr>suit = Spades, rank = R5\<rparr>, \<lparr>suit = Hearts, rank = K\<rparr>, \<lparr>suit = Clubs, rank = R2\<rparr>]
     = mset [\<lparr>suit = Clubs, rank = R2\<rparr>, \<lparr>suit = Spades, rank = R5\<rparr>, \<lparr>suit = Hearts, rank = K\<rparr>]
   \<and> updateRunningCount [\<lparr>suit = Spades, rank = R5\<rparr>, \<lparr>suit = Hearts, rank = K\<rparr>, \<lparr>suit = Clubs, rank = R2\<rparr>] 3 = 4
   \<and> updateRunningCount [\<lparr>suit = Clubs, rank = R2\<rparr>, \<lparr>suit = Spades, rank = R5\<rparr>, \<lparr>suit = Hearts, rank = K\<rparr>] 3 = 4"
  using updateRunningCount_fold
    [of "[\<lparr>suit = Spades, rank = R5\<rparr>, \<lparr>suit = Hearts, rank = K\<rparr>, \<lparr>suit = Clubs, rank = R2\<rparr>]" 3
        "[\<lparr>suit = Clubs, rank = R2\<rparr>, \<lparr>suit = Spades, rank = R5\<rparr>, \<lparr>suit = Hearts, rank = K\<rparr>]"
        "[]" "[]"]
  by (simp add: updateRunningCount_def hiLoValues_def or_zero_def)

section \<open>Hand totals\<close>

lemma addCard_eq: "addCard c (t, a) = (t + initialValue (rank c), a + (if rank c = A then 1 else 0))"
  by (cases "rank c") simp_all

lemma fold_addCard:
  "fold addCard hnd (t, a) = (t + sum_list (map (\<lambda>c. initialValue (rank c)) hnd), a + numAces hnd)"
  by (induction hnd arbitrary: t a) (simp_all add: addCard_eq numAces_def del: addCard.simps)

lemma calculateTotal_reduce:
  "calculateTotal hnd = reduceAces (sum_list (map (\<lambda>c. initialValue (rank c)) hnd)) (numAces hnd)"
  by (simp add: calculateTotal_def fold_addCard)

lemma reduceAces_shape:
  "\<exists>m\<le>a. reduceAces t a = t - 10 * int m \<and> (\<forall>j<m. t - 10 * int j > 21)
        \<and> (t - 10 * int m \<le> 21 \<or> m = a)"
proof (induction a arbitrary: t)
  case 0
  then show ?case by simp
next
  case (Suc a)
  show ?case
  proof (cases "t > 21")
    case True
    from Suc.IH [of "t - 10"] obtain m where m: "m \<le> a" "reduceAces (t - 10) a = t - 10 - 10 * int m"
      "\<forall>j<m. t - 10 - 10 * int j > 21" "t - 10 - 10 * int m \<le> 21 \<or> m = a" by blast
    have "\<forall>j<Suc m. t - 10 * int j > 21"
    proof (intro allI impI)
      fix j assume "j < Suc m"
      show "t - 10 * int j > 21"
      proof (cases j)
        case 0 with True show ?thesis by simp
      next
        case (Suc i)
        with \<open>j < Suc m\<close> have "i < m" by simp
        with m(3) have "t - 10 - 10 * int i > 21" by blast
        with Suc show ?thesis by simp
      qed
    qed
    with m True show ?thesis
      by (intro exI [of _ "Suc m"]) auto
  next
    case False
    then show ?thesis by (intro exI [of _ 0]) simp
  qed
qed

lemma achievableTotals_image:
  "achievableTotals hnd =
     (\<lambda>k. sum_list (map (\<lambda>c. initialValue (rank c)) hnd) - 10 * int k) ` {0..numAces hnd}"
proof (induction hnd)
  case Nil
  then show ?case by (simp add: numAces_def)
next
  case (Cons c cs)
  let ?s = "sum_list (map (\<lambda>c. initialValue (rank c)) cs)"
  let ?n = "numAces cs"
  show ?case
  proof (cases "rank c = A")
    case True
    have n: "numAces (c # cs) = Suc ?n" using True by (simp add: numAces_def)
    have "achievableTotals (c # cs) = (\<lambda>k. 1 + (?s - 10 * int k)) ` {0..?n} \<union> (\<lambda>k. 11 + (?s - 10 * int k)) ` {0..?n}"
      using True Cons.IH by (simp add: image_image)
    also have "\<dots> = (\<lambda>k. 11 + ?s - 10 * int k) ` {0..Suc ?n}"
    proof (intro set_eqI iffI)
      fix x assume "x \<in> (\<lambda>k. 1 + (?s - 10 * int k)) ` {0..?n} \<union> (\<lambda>k. 11 + (?s - 10 * int k)) ` {0..?n}"
      then consider k where "k \<le> ?n" "x = 1 + (?s - 10 * int k)" | k where "k \<le> ?n" "x = 11 + (?s - 10 * int k)"
        by auto
      then show "x \<in> (\<lambda>k. 11 + ?s - 10 * int k) ` {0..Suc ?n}"
      proof cases
        case 1
        then have "x = 11 + ?s - 10 * int (Suc k)" "Suc k \<in> {0..Suc ?n}" by simp_all
        then show ?thesis by (rule image_eqI)
      next
        case 2
        then have "x = 11 + ?s - 10 * int k" "k \<in> {0..Suc ?n}" by simp_all
        then show ?thesis by (rule image_eqI)
      qed
    next
      fix x assume "x \<in> (\<lambda>k. 11 + ?s - 10 * int k) ` {0..Suc ?n}"
      then obtain k where k: "k \<le> Suc ?n" "x = 11 + ?s - 10 * int k" by auto
      show "x \<in> (\<lambda>k. 1 + (?s - 10 * int k)) ` {0..?n} \<union> (\<lambda>k. 11 + (?s - 10 * int k)) ` {0..?n}"
      proof (cases k)
        case 0
        with k have "x = 11 + (?s - 10 * int 0)" "0 \<in> {0..?n}" by simp_all
        then show ?thesis by blast
      next
        case (Suc i)
        with k have "x = 1 + (?s - 10 * int i)" "i \<in> {0..?n}" by simp_all
        then show ?thesis by blast
      qed
    qed
    finally show ?thesis using True n by simp
  next
    case False
    then have n: "numAces (c # cs) = ?n" by (simp add: numAces_def)
    show ?thesis using False Cons.IH n by (simp add: image_image algebra_simps)
  qed
qed

text \<open>
  C7. For every hand, \<open>calculateTotal\<close> sums the cards' values (ace 11, face card 10,
  2-10 literal) and then takes 10 off per ace while the total exceeds 21 and an ace is
  left; the result is the greatest achievable total that is at most 21 when there is one,
  and otherwise the least achievable total, which exceeds 21.
\<close>

theorem calculateTotal_best:
  "calculateTotal hnd = reduceAces (sum_list (map (\<lambda>c. initialValue (rank c)) hnd)) (numAces hnd)
   \<and> ((\<exists>t\<in>achievableTotals hnd. t \<le> 21) \<longrightarrow>
        calculateTotal hnd = Max {t \<in> achievableTotals hnd. t \<le> 21})
   \<and> ((\<forall>t\<in>achievableTotals hnd. t > 21) \<longrightarrow>
        calculateTotal hnd = Min (achievableTotals hnd) \<and> calculateTotal hnd > 21)"
proof -
  let ?s = "sum_list (map (\<lambda>c. initialValue (rank c)) hnd)"
  let ?n = "numAces hnd"
  let ?T = "achievableTotals hnd"
  have T: "?T = (\<lambda>k. ?s - 10 * int k) ` {0..?n}" by (rule achievableTotals_image)
  have fin: "finite ?T" by (simp add: T)
  obtain m where m: "m \<le> ?n" "calculateTotal hnd = ?s - 10 * int m"
      "\<forall>j<m. ?s - 10 * int j > 21" "?s - 10 * int m \<le> 21 \<or> m = ?n"
    using reduceAces_shape [of ?n ?s] by (auto simp: calculateTotal_reduce)
  have mem: "calculateTotal hnd \<in> ?T" using m(1,2) by (auto simp: T)
  have hi: "t \<le> calculateTotal hnd" if "t \<in> ?T" "t \<le> 21" for t
  proof -
    from that obtain k where k: "k \<le> ?n" "t = ?s - 10 * int k" by (auto simp: T)
    with that(2) m(3) have "\<not> k < m" by force
    with k m(2) show ?thesis by simp
  qed
  have lo: "calculateTotal hnd \<le> t" if "t \<in> ?T" "m = ?n" for t
  proof -
    from that obtain k where k: "k \<le> ?n" "t = ?s - 10 * int k" by (auto simp: T)
    with that(2) m(2) show ?thesis by simp
  qed
  have A: "calculateTotal hnd = Max {t \<in> ?T. t \<le> 21}" if "\<exists>t\<in>?T. t \<le> 21"
  proof -
    have le: "calculateTotal hnd \<le> 21"
    proof (rule ccontr)
      assume "\<not> calculateTotal hnd \<le> 21"
      with m(2,4) have "m = ?n" "calculateTotal hnd > 21" by auto
      with lo that show False by force
    qed
    show ?thesis
      by (rule Max_eqI [symmetric]) (use fin mem le hi in auto)
  qed
  have B: "calculateTotal hnd = Min ?T \<and> calculateTotal hnd > 21" if "\<forall>t\<in>?T. t > 21"
  proof -
    from that mem have gt: "calculateTotal hnd > 21" by blast
    with m(2,4) have "m = ?n" by auto
    then have "calculateTotal hnd = Min ?T"
      by (intro Min_eqI [symmetric]) (use fin mem lo in auto)
    with gt show ?thesis by simp
  qed
  show ?thesis using A B calculateTotal_reduce by blast
qed

theorem calculateTotal_best_witness:
  "(\<exists>t\<in>achievableTotals [\<lparr>suit = Spades, rank = A\<rparr>, \<lparr>suit = Hearts, rank = A\<rparr>, \<lparr>suit = Clubs, rank = R9\<rparr>]. t \<le> 21)
   \<and> calculateTotal [\<lparr>suit = Spades, rank = A\<rparr>, \<lparr>suit = Hearts, rank = A\<rparr>, \<lparr>suit = Clubs, rank = R9\<rparr>] = 21
   \<and> Max {t \<in> achievableTotals [\<lparr>suit = Spades, rank = A\<rparr>, \<lparr>suit = Hearts, rank = A\<rparr>, \<lparr>suit = Clubs, rank = R9\<rparr>]. t \<le> 21} = 21"
  using calculateTotal_best [of "[\<lparr>suit = Spades, rank = A\<rparr>, \<lparr>suit = Hearts, rank = A\<rparr>, \<lparr>suit = Clubs, rank = R9\<rparr>]"]
  by (simp add: calculateTotal_def)


section \<open>The strategy advisor\<close>

lemma basicStrategy_values: "snd ` set basicStrategy \<subseteq> tableMoves"
  by (simp add: basicStrategy_def tableMoves_def)

lemma basicStrategy_lookup: "map_of basicStrategy k = Some m \<Longrightarrow> m \<in> tableMoves \<and> m \<noteq> []"
proof -
  assume "map_of basicStrategy k = Some m"
  then have "(k, m) \<in> set basicStrategy" by (rule map_of_SomeD)
  then have "m \<in> snd ` set basicStrategy" by force
  with basicStrategy_values have "m \<in> tableMoves" by blast
  then show ?thesis by (auto simp: tableMoves_def)
qed

lemma or_else_lookup:
  "or_else (map_of basicStrategy k) b = (case map_of basicStrategy k of Some m \<Rightarrow> m | None \<Rightarrow> b)"
  using basicStrategy_lookup [of k] by (auto simp: or_else_def split: option.splits)

lemma or_else_range: "b \<in> tableMoves \<Longrightarrow> or_else (map_of basicStrategy k) b \<in> tableMoves"
  using basicStrategy_lookup [of k] by (auto simp: or_else_lookup split: option.splits)

lemma tableMove_range: "tableMove p u \<in> tableMoves"
  using or_else_range [of "or_else (map_of basicStrategy (show_int p @ ''_any'')) ''hit''" "show_int p @ ''_'' @ u"]
    or_else_range [of "''hit''" "show_int p @ ''_any''"]
  by (simp add: tableMove_def or_else_lookup tableMoves_def)

text \<open>
  C3, as amended. For every player total, dealer upcard, running count and number of decks,
  \<open>getOptimalMove\<close> looks the key "total_upcard" up, falls back to "total_any" and then
  to "hit", applies the true-count adjustment, and returns one of the five values hit,
  stand, double, double_or_hit, surrender_or_hit.
\<close>

theorem getOptimalMove_five:
  "getOptimalMove p u r d =
     (if calculateTrueCount r d \<ge> 2 \<and> tableMove p u = ''hit'' then ''stand''
      else if calculateTrueCount r d \<le> - 2 \<and> tableMove p u = ''stand'' then ''hit''
      else tableMove p u)
   \<and> getOptimalMove p u r d \<in> {''hit'', ''stand'', ''double'', ''double_or_hit'', ''surrender_or_hit''}"
proof -
  have eq: "getOptimalMove p u r d =
     (if calculateTrueCount r d \<ge> 2 \<and> tableMove p u = ''hit'' then ''stand''
      else if calculateTrueCount r d \<le> - 2 \<and> tableMove p u = ''stand'' then ''hit''
      else tableMove p u)"
    by (simp add: getOptimalMove_def Let_def or_else_lookup tableMove_def)
  moreover have "getOptimalMove p u r d \<in> tableMoves"
    using tableMove_range [of p u] unfolding eq by (simp add: tableMoves_def)
  ultimately show ?thesis by (simp add: tableMoves_def)
qed

lemma show_int_9: "show_int 9 = ''9''"
  by (simp add: show_int_def show_nat.simps)

text \<open>
  The claim as first stated names four values only: with a total of 9 against a dealer 5
  the function returns "double".
\<close>

theorem getOptimalMove_double_counterexample:
  "getOptimalMove 9 ''5'' 0 6 = ''double''
   \<and> getOptimalMove 9 ''5'' 0 6 \<notin> {''hit'', ''stand'', ''double_or_hit'', ''surrender_or_hit''}"
  by (simp add: getOptimalMove_def show_int_9 basicStrategy_def or_else_def calculateTrueCount_def)


section \<open>Dealer resolution\<close>

lemma dealerLoop_frame:
  "snd (snd (dealerLoop h d t)) = t\<lparr>runningCount := runningCount (snd (snd (dealerLoop h d t)))\<rparr>"
proof (induction h d t rule: dealerLoop.induct)
  case (1 h t)
  then show ?case by simp
next
  case (2 h c d t)
  show ?case
  proof (cases "calculateTotal h < 17")
    case True
    with 2 have "snd (snd (dealerLoop (h @ [c]) d (updateRunningCountForCards [c] t)))
        = (updateRunningCountForCards [c] t)\<lparr>runningCount := runningCount (snd (snd (dealerLoop (h @ [c]) d (updateRunningCountForCards [c] t))))\<rparr>"
      by simp
    then show ?thesis using True
      by (simp add: updateRunningCountForCards_def)
  next
    case False
    then show ?thesis by simp
  qed
qed



lemma dealerLoop_hand: "fst (dealerLoop h d t) = dealerFinalHand h d"
  by (induction h d t rule: dealerLoop.induct) simp_all

lemma outcomeMessage_win:
  "(outcomeMessage p d = ''You win!'' \<or> outcomeMessage p d = ''Dealer busts, you win!'') = (computeOutcome p d = ''Win'')"
  by (simp add: outcomeMessage_def computeOutcome_def)

lemma outcomeMessage_push: "(outcomeMessage p d = ''Push!'') = (computeOutcome p d = ''Push'')"
  by (simp add: outcomeMessage_def computeOutcome_def)

lemma settleHuman_players:
  "players (settleHuman (outcomeMessage p d) p t) =
     (players t)[2 := (players t ! 2)\<lparr>chips := chips (players t ! 2) + payout p d (bet (players t ! 2))\<rparr>]"
  unfolding settleHuman_def Let_def outcomeMessage_win outcomeMessage_push
  by (simp add: mutPlayer_def payout_def)

lemma settleHuman_frame:
  "deck (settleHuman outcome p t) = deck t"
  "dealerHand (settleHuman outcome p t) = dealerHand t"
  "message (settleHuman outcome p t) = message t"
  "analysisMessage (settleHuman outcome p t) = analysisMessage t"
  "sessionAnalysis (settleHuman outcome p t) = sessionAnalysis t"
  "handCount (settleHuman outcome p t) = handCount t"
  "dealerRevealed (settleHuman outcome p t) = dealerRevealed t"
  "gameOver (settleHuman outcome p t) = gameOver t"
  "runningCount (settleHuman outcome p t) = runningCount t"
  "bettingPhase (settleHuman outcome p t) = bettingPhase t"
  "chatLog (settleHuman outcome p t) = chatLog t"
  "dealComplete (settleHuman outcome p t) = dealComplete t"
  "splitHands (settleHuman outcome p t) = splitHands t"
  "activeSplitIndex (settleHuman outcome p t) = activeSplitIndex t"
  by (simp_all add: settleHuman_def Let_def mutPlayer_def)

lemma revealDealerHand_Some:
  assumes "2 < length (players t)"
  shows "\<exists>u. revealDealerHand r t = Some u
           \<and> players u = (players t)[2 := (players t ! 2)\<lparr>chips := chips (players t ! 2)
                + payout (calculateTotal (hand (players t ! 2))) (calculateTotal (dealerHand u)) (bet (players t ! 2))\<rparr>]
           \<and> message u = outcomeMessage (calculateTotal (hand (players t ! 2))) (calculateTotal (dealerHand u))
           \<and> dealerHand u = dealerFinalHand (dealerHand r) (deck r)
           \<and> gameOver u \<and> dealerRevealed u \<and> handCount u = handCount t + 1
           \<and> chatLog u = chatLog t \<and> splitHands u = splitHands t
           \<and> activeSplitIndex u = activeSplitIndex t \<and> analysisMessage u = analysisMessage t
           \<and> bettingPhase u = bettingPhase t"
proof -
  obtain h d t1 where dl: "dealerLoop (dealerHand r) (deck r) (t\<lparr>dealerRevealed := True\<rparr>) = (h, d, t1)"
    by (cases "dealerLoop (dealerHand r) (deck r) (t\<lparr>dealerRevealed := True\<rparr>)") auto
  from dealerLoop_frame [of "dealerHand r" "deck r" "t\<lparr>dealerRevealed := True\<rparr>"] dl
  have t1: "t1 = t\<lparr>dealerRevealed := True, runningCount := runningCount t1\<rparr>" by simp
  have h: "h = dealerFinalHand (dealerHand r) (deck r)"
    using dealerLoop_hand [of "dealerHand r" "deck r" "t\<lparr>dealerRevealed := True\<rparr>"] dl by simp
  have p: "players t1 = players t" "chatLog t1 = chatLog t" "splitHands t1 = splitHands t"
    "handCount t1 = handCount t" "activeSplitIndex t1 = activeSplitIndex t"
    "analysisMessage t1 = analysisMessage t" "bettingPhase t1 = bettingPhase t"
    "dealerRevealed t1"
    by (subst t1, simp)+
  show ?thesis
    using assms
    by (simp add: revealDealerHand_def dl Let_def settleHuman_players settleHuman_frame p h [symmetric])
qed














text \<open>
  C1, as amended. At dealer resolution, when the human's outcome is a win, the payout is
  2.5 times the bet exactly when the winning total is 21, however many cards make it;
  every other win pays twice the bet, a push returns the bet, and a loss or bust adds
  nothing.
\<close>

theorem revealDealerHand_payout:
  assumes "2 < length (players t)"
  shows "\<exists>u. revealDealerHand r t = Some u
          \<and> gameOver u
          \<and> dealerHand u = dealerFinalHand (dealerHand r) (deck r)
          \<and> (let pt = calculateTotal (hand (players t ! 2));
                  dt = calculateTotal (dealerHand u);
                  b = bet (players t ! 2)
              in (message u = ''You win!'' \<or> message u = ''Dealer busts, you win!'')
                   = (computeOutcome pt dt = ''Win'')
                 \<and> (message u = ''Push!'') = (computeOutcome pt dt = ''Push'')
                 \<and> chips (players u ! 2) = chips (players t ! 2)
                   + (if computeOutcome pt dt = ''Win'' then (if pt = 21 then b * 2.5 else b * 2)
                      else if computeOutcome pt dt = ''Push'' then b
                      else 0))"
proof -
  from revealDealerHand_Some [OF assms, of r] obtain u where u: "revealDealerHand r t = Some u"
    "players u = (players t)[2 := (players t ! 2)\<lparr>chips := chips (players t ! 2)
         + payout (calculateTotal (hand (players t ! 2))) (calculateTotal (dealerHand u)) (bet (players t ! 2))\<rparr>]"
    "gameOver u"
    "message u = outcomeMessage (calculateTotal (hand (players t ! 2))) (calculateTotal (dealerHand u))"
    "dealerHand u = dealerFinalHand (dealerHand r) (deck r)"
    by blast
  from u(2) assms have "chips (players u ! 2) = chips (players t ! 2)
         + payout (calculateTotal (hand (players t ! 2))) (calculateTotal (dealerHand u)) (bet (players t ! 2))"
    by simp
  moreover have "(message u = ''You win!'' \<or> message u = ''Dealer busts, you win!'')
      = (computeOutcome (calculateTotal (hand (players t ! 2))) (calculateTotal (dealerHand u)) = ''Win'')"
    unfolding u(4) by (rule outcomeMessage_win)
  moreover have "(message u = ''Push!'')
      = (computeOutcome (calculateTotal (hand (players t ! 2))) (calculateTotal (dealerHand u)) = ''Push'')"
    unfolding u(4) by (rule outcomeMessage_push)
  ultimately show ?thesis
    using u(1,3,5) unfolding Let_def payout_def by blast
qed

lemma sevens_after_hit:
  "map_option (\<lambda>s. (length (players s), calculateTotal (hand (players s ! 2)), length (hand (players s ! 2)),
                      bet (players s ! 2), chips (players s ! 2),
                      map_option (\<lambda>u. calculateTotal (dealerHand u)) (revealDealerHand s s)))
     (Option.bind (betAndDeal (frontSevens @ rest) 100 (initialState deck0)) (handlePlayerMove 0 Hit))
   = Some (4, 21, 3, 100, 900, Some 17)"
  by code_simp

theorem revealDealerHand_payout_witness:
  "\<exists>s. Option.bind (betAndDeal (shoe frontSevens) 100 (initialState (buildDeck 6)))
          (handlePlayerMove 0 Hit) = Some s
      \<and> 2 < length (players s)
      \<and> length (hand (players s ! 2)) = 3
      \<and> (\<exists>u. revealDealerHand s s = Some u \<and> gameOver u \<and> chips (players u ! 2) = 1150)"
proof -
  from sevens_after_hit [of "fold remove1 frontSevens (buildDeck 6)" "buildDeck 6"]
  obtain s where s: "Option.bind (betAndDeal (shoe frontSevens) 100 (initialState (buildDeck 6)))
          (handlePlayerMove 0 Hit) = Some s"
    "length (players s) = 4" "calculateTotal (hand (players s ! 2)) = 21"
    "length (hand (players s ! 2)) = 3"
    "bet (players s ! 2) = 100" "chips (players s ! 2) = 900"
    "map_option (\<lambda>u. calculateTotal (dealerHand u)) (revealDealerHand s s) = Some 17"
    unfolding shoe_def by auto
  from s(2) have l: "2 < length (players s)" by simp
  from revealDealerHand_payout [OF l, of s] obtain u where
    u: "revealDealerHand s s = Some u" "gameOver u"
       "chips (players u ! 2) = chips (players s ! 2)
          + (if computeOutcome (calculateTotal (hand (players s ! 2))) (calculateTotal (dealerHand u)) = ''Win''
             then (if calculateTotal (hand (players s ! 2)) = 21
                   then bet (players s ! 2) * 2.5 else bet (players s ! 2) * 2)
             else if computeOutcome (calculateTotal (hand (players s ! 2))) (calculateTotal (dealerHand u)) = ''Push''
             then bet (players s ! 2) else 0)"
    unfolding Let_def by blast
  from s(7) u(1) have d: "calculateTotal (dealerHand u) = 17" by simp
  from u(3) have "chips (players u ! 2) = 1150"
    unfolding d s(3,5,6) by (simp add: computeOutcome_def)
  with s(1,4) l u(1,2) show ?thesis by blast
qed

lemma sevens_hit_stand:
  "map_option (\<lambda>u. (message u, length (hand (players u ! 2)), calculateTotal (hand (players u ! 2)),
                     bet (players u ! 2), chips (players u ! 2)))
     (Option.bind (Option.bind (betAndDeal (frontSevens @ rest) 100 (initialState deck0))
        (handlePlayerMove 0 Hit)) (handlePlayerMove 0 Stand))
   = Some (''You win!'', 3, 21, 100, 900 + 100 * 2.5)"
  by code_simp

text \<open>
  The claim as first stated has a 21 of three or more cards paid twice the bet. Dealt
  7 7, the human hits a third 7 and stands; the dealer stays on 17 and the bet of 100
  pays 250.
\<close>

theorem three_card_21_counterexample:
  "generateDeck 6 (shoe frontSevens)
   \<and> map_option (\<lambda>u. (message u, length (hand (players u ! 2)), calculateTotal (hand (players u ! 2)),
                     bet (players u ! 2), chips (players u ! 2)))
     (Option.bind (Option.bind (betAndDeal (shoe frontSevens) 100 (initialState (buildDeck 6)))
        (handlePlayerMove 0 Hit)) (handlePlayerMove 0 Stand))
   = Some (''You win!'', 3, 21, 100, 900 + 100 * 2.5)
   \<and> (900 + 100 * 2.5 :: rat) \<noteq> 900 + 100 * 2"
  using shoes_generated(2) sevens_hit_stand [of "fold remove1 frontSevens (buildDeck 6)" "buildDeck 6"]
  by (simp add: shoe_def)


section \<open>Doubling without the chips\<close>

















section \<open>The human busts\<close>

lemma bust_trace:
  "map_option (\<lambda>u. (gameOver u, dealerRevealed u, message u, map ce_sender (chatLog u),
                     hand (players u ! 3), bet (players u ! 3)))
     (Option.bind (betAndDeal (frontBust @ rest) 100 (initialState deck0)) (handlePlayerMove 0 Hit))
   = Some (True, True, ''Bust'', [''Bot 1'', ''Bot 2'', ''You''],
           [Card Spades R5, Card Spades R6], 50)
   \<and> map_option (\<lambda>u. (gameOver u, map ce_sender (chatLog u), map ce_message (chatLog u),
                        hand (players u ! 3), bet (players u ! 3)))
     (Option.bind (betAndDeal (frontBust @ rest) 100 (initialState deck0)) (handlePlayerMove 0 Stand))
   = Some (True, [''Bot 1'', ''Bot 2'', ''You'', ''Bot 3''],
           [''Bot 1 stood.'', ''Bot 2 stood.'', ''You stood.'', ''Bot 3 doubled down.''],
           [Card Spades R5, Card Spades R6, Card Hearts K], 100)"
  by code_simp

text \<open>
  C5. The order "Bot 3 acts once, then the dealer reveals and draws" does not hold on the
  path where the human busts on a hit: the hand is resolved and Bot 3, holding 11, has
  not acted. Standing on the same table lets Bot 3 act before the dealer.
\<close>

theorem bust_path_skips_bot3:
  "generateDeck 6 (shoe frontBust)
   \<and> map_option (\<lambda>u. (gameOver u, dealerRevealed u, message u, map ce_sender (chatLog u),
                     hand (players u ! 3), bet (players u ! 3)))
     (Option.bind (betAndDeal (shoe frontBust) 100 (initialState (buildDeck 6))) (handlePlayerMove 0 Hit))
   = Some (True, True, ''Bust'', [''Bot 1'', ''Bot 2'', ''You''],
           [Card Spades R5, Card Spades R6], 50)
   \<and> map_option (\<lambda>u. (gameOver u, map ce_sender (chatLog u), map ce_message (chatLog u),
                        hand (players u ! 3), bet (players u ! 3)))
     (Option.bind (betAndDeal (shoe frontBust) 100 (initialState (buildDeck 6))) (handlePlayerMove 0 Stand))
   = Some (True, [''Bot 1'', ''Bot 2'', ''You'', ''Bot 3''],
           [''Bot 1 stood.'', ''Bot 2 stood.'', ''You stood.'', ''Bot 3 doubled down.''],
           [Card Spades R5, Card Spades R6, Card Hearts K], 100)"
  using shoes_generated(1) bust_trace [of "fold remove1 frontBust (buildDeck 6)" "buildDeck 6"]
  by (simp add: shoe_def)


section \<open>The next hand\<close>

text \<open>
  C4, as amended. After five resolved hands the next-hand transition resets the hand count
  and the running count and produces the cumulative summary, while wins, losses and pushes
  keep their values (and the betting phase is not entered); with fewer than five resolved
  hands it returns to the betting phase and leaves all these counters unchanged.
\<close>

theorem nextHand_cycle:
  "(handCount r \<ge> 5 \<longrightarrow>
      handCount (nextHand r) = 0 \<and> runningCount (nextHand r) = 0 \<and> handHistory (nextHand r) = []
      \<and> sessionAnalysis (nextHand r) =
           ''Cumulative Results: Wins: '' @ show_int (humanWins r) @ '', Losses: ''
           @ show_int (humanLosses r) @ '', Pushes: '' @ show_int (humanPushes r)
      \<and> humanWins (nextHand r) = humanWins r \<and> humanLosses (nextHand r) = humanLosses r
      \<and> humanPushes (nextHand r) = humanPushes r
      \<and> bettingPhase (nextHand r) = bettingPhase r)
   \<and> (handCount r < 5 \<longrightarrow>
      bettingPhase (nextHand r)
      \<and> humanWins (nextHand r) = humanWins r \<and> humanLosses (nextHand r) = humanLosses r
      \<and> humanPushes (nextHand r) = humanPushes r \<and> handCount (nextHand r) = handCount r
      \<and> runningCount (nextHand r) = runningCount r
      \<and> sessionAnalysis (nextHand r) = sessionAnalysis r)"
  by (simp add: nextHand_def Let_def)

lemma five_hands_trace:
  "map_option (\<lambda>s. (handCount s, humanWins s, humanLosses s, humanPushes s, gameOver s,
                      (handCount (nextHand s), runningCount (nextHand s), sessionAnalysis (nextHand s)),
                      (humanWins (nextHand s), humanLosses (nextHand s), humanPushes (nextHand s))))
     (fiveHands (frontTwenty @ rest1) (frontBust @ rest2) deck0)
   = Some (5, 3, 2, 0, True,
           (0, 0, ''Cumulative Results: Wins: 3, Losses: 2, Pushes: 0''), (3, 2, 0))"
  by code_simp

lemma two_hands_trace:
  "map_option (\<lambda>s. (handCount s, gameOver s, bettingPhase s, bettingPhase (nextHand s),
                      handCount (nextHand s)))
     (twoHands (frontTwenty @ rest1) (frontBust @ rest2) deck0)
   = Some (2, True, False, True, 2)"
  by code_simp

theorem nextHand_cycle_witness:
  "(\<exists>s. fiveHands (shoe frontTwenty) (shoe frontBust) (buildDeck 6) = Some s
       \<and> handCount s \<ge> 5
       \<and> handCount (nextHand s) = 0 \<and> runningCount (nextHand s) = 0
       \<and> sessionAnalysis (nextHand s) = ''Cumulative Results: Wins: 3, Losses: 2, Pushes: 0''
       \<and> humanWins (nextHand s) = humanWins s)
   \<and> (\<exists>s. twoHands (shoe frontTwenty) (shoe frontBust) (buildDeck 6) = Some s
       \<and> handCount s < 5
       \<and> bettingPhase (nextHand s) \<and> handCount (nextHand s) = 2)"
proof -
  from five_hands_trace [of "fold remove1 frontTwenty (buildDeck 6)"
      "fold remove1 frontBust (buildDeck 6)" "buildDeck 6"]
  obtain s where s: "fiveHands (shoe frontTwenty) (shoe frontBust) (buildDeck 6) = Some s"
    "handCount s = 5" "humanWins s = 3" "humanLosses s = 2" "humanPushes s = 0"
    unfolding shoe_def by auto
  from two_hands_trace [of "fold remove1 frontTwenty (buildDeck 6)"
      "fold remove1 frontBust (buildDeck 6)" "buildDeck 6"]
  obtain s2 where s2: "twoHands (shoe frontTwenty) (shoe frontBust) (buildDeck 6) = Some s2"
    "handCount s2 = 2"
    unfolding shoe_def by auto
  have n: "show_int 3 = ''3''" "show_int 2 = ''2''" "show_int 0 = ''0''"
    by (simp_all add: show_int_def show_nat.simps)
  from nextHand_cycle [of s] s(2-5) n
  have "handCount (nextHand s) = 0 \<and> runningCount (nextHand s) = 0
       \<and> sessionAnalysis (nextHand s) = ''Cumulative Results: Wins: 3, Losses: 2, Pushes: 0''
       \<and> humanWins (nextHand s) = humanWins s"
    by simp
  moreover from nextHand_cycle [of s2] s2(2)
  have "bettingPhase (nextHand s2) \<and> handCount (nextHand s2) = 2"
    by simp
  ultimately show ?thesis using s(1,2) s2 by auto
qed

text \<open>
  The claim as first stated has wins, losses and pushes reset as well. After five hands,
  three won and two lost, the transition resets the hand count and leaves 3 wins and 2
  losses.
\<close>

theorem nextHand_keeps_wins_counterexample:
  "generateDeck 6 (shoe frontTwenty) \<and> generateDeck 6 (shoe frontBust)
   \<and> map_option (\<lambda>s. (handCount s, humanWins s, humanLosses s, humanPushes s, gameOver s,
                      (handCount (nextHand s), runningCount (nextHand s), sessionAnalysis (nextHand s)),
                      (humanWins (nextHand s), humanLosses (nextHand s), humanPushes (nextHand s))))
     (fiveHands (shoe frontTwenty) (shoe frontBust) (buildDeck 6))
   = Some (5, 3, 2, 0, True,
           (0, 0, ''Cumulative Results: Wins: 3, Losses: 2, Pushes: 0''), (3, 2, 0))"
  using shoes_generated(1,4) five_hands_trace [of "fold remove1 frontTwenty (buildDeck 6)"
      "fold remove1 frontBust (buildDeck 6)" "buildDeck 6"]
  by (simp add: shoe_def)


section \<open>Resolution after a split\<close>










end
